theory Spec2Isabelle
  imports Complex_Main
begin

section \<open>JavaScript values used by the pages\<close>

text \<open>
  Strings are lists of code units. A \<^typ>\<open>char\<close> holds eight bits, so the model covers
  the strings whose code units lie below U+0100. Of the characters that
  \<^verbatim>\<open>String.prototype.trim\<close> strips (ECMAScript WhiteSpace and LineTerminator), seven
  lie in that range: TAB, LF, VT, FF, CR, SPACE and NBSP.
\<close>

definition is_space :: "char \<Rightarrow> bool" where
  "is_space c \<longleftrightarrow> c \<in> set [CHR 0x09, CHR 0x0A, CHR 0x0B, CHR 0x0C, CHR 0x0D, CHR 0x20, CHR 0xA0]"

definition trim :: "string \<Rightarrow> string" where
  "trim s = rev (dropWhile is_space (rev (dropWhile is_space s)))"

text \<open>A string is falsy exactly when it is empty (\<^verbatim>\<open>!s\<close>, \<^verbatim>\<open>s || d\<close>, \<^verbatim>\<open>s ? a : b\<close>).\<close>

definition truthy :: "string \<Rightarrow> bool" where
  "truthy s \<longleftrightarrow> s \<noteq> []"

text \<open>A value that may be \<^verbatim>\<open>undefined\<close> or \<^verbatim>\<open>null\<close> is an option; both are falsy.\<close>

definition truthy_opt :: "string option \<Rightarrow> bool" where
  "truthy_opt v = (case v of None \<Rightarrow> False | Some s \<Rightarrow> truthy s)"

text \<open>\<^verbatim>\<open>s || null\<close> on a string.\<close>

definition or_null :: "string \<Rightarrow> string option" where
  "or_null s = (if truthy s then Some s else None)"

section \<open>What a handler does to the outside\<close>

text \<open>
  The user profile and the bodies of the responses, as section 6 of the specification
  gives them. Nothing in the pages checks a response, so the two fields of a login or
  signup response are optional: a field that is missing or null is \<open>None\<close>.
\<close>

record profile =
  user_email :: string
  user_education_level :: string
  user_sub_level :: "string option"
  user_board :: "string option"

record auth_response =
  resp_token :: "string option"
  resp_user :: "profile option"

record eval_response =
  is_correct :: bool
  feedback :: string

datatype content_payload = PlainText string | VideoInfo string string string

text \<open>The requests the modelled handlers send, each with its body.\<close>

datatype request =
    PostLogin string string
  | PostSignup string string string "string option" "string option"
  | PostGenerateContent string string
  | PostEvaluateAnswer "string option" string string real

text \<open>
  A handler's visible actions, in the order it performs them: toasts, requests,
  navigation (with the state it carries, here the pair topic and technique) and the
  \<^verbatim>\<open>onLogin\<close> callback.
\<close>

datatype effect =
    ToastError string
  | ToastSuccess string
  | ToastInfo string
  | Http request
  | Navigate string "(string \<times> string) option"
  | OnLogin "string option" "profile option"

fun is_http :: "effect \<Rightarrow> bool" where
  "is_http (Http _) = True"
| "is_http _ = False"

fun is_navigate :: "effect \<Rightarrow> bool" where
  "is_navigate (Navigate _ _) = True"
| "is_navigate _ = False"

text \<open>
  How an awaited request ends: the promise rejects (with the server's
  \<^verbatim>\<open>error.response?.data?.detail\<close>, when there is one), or resolves with a body.
\<close>

datatype 'a outcome = Rejected "string option" | Resolved 'a

section \<open>Dashboard.js\<close>

text \<open>
  \<^verbatim>\<open>startLearning(technique)\<close>, a closure over the \<^verbatim>\<open>topic\<close> field:
  an error toast when the trimmed topic is empty, navigation to \<^verbatim>\<open>/learn\<close> otherwise.
\<close>

definition startLearning :: "string \<Rightarrow> string \<Rightarrow> effect list" where
  "startLearning topic technique =
     (if \<not> truthy (trim topic) then [ToastError ''Please enter a topic to learn'']
      else [Navigate ''/learn'' (Some (topic, technique))])"

text \<open>The three buttons of the page call it with these arguments.\<close>

definition techniques :: "string list" where
  "techniques = [''passage'', ''video'', ''flowchart'']"

section \<open>LearningPage.js\<close>

record learn_nav =
  nav_topic :: "string option"
  nav_technique :: "string option"

record learning_state =
  content :: "content_payload option"
  learn_loading :: bool

text \<open>\<^verbatim>\<open>const { topic, technique } = location.state || {}\<close>\<close>

definition learn_params :: "learn_nav option \<Rightarrow> string option \<times> string option" where
  "learn_params loc = (case loc of None \<Rightarrow> (None, None) | Some s \<Rightarrow> (nav_topic s, nav_technique s))"

text \<open>
  \<^verbatim>\<open>generateContent\<close>: the request, then the content stored on success, or a toast and
  the way back to the dashboard on failure; \<^verbatim>\<open>loading\<close> (here \<open>learn_loading\<close>) is set
  first and ends false either way.
\<close>

definition generateContent ::
  "string \<Rightarrow> string \<Rightarrow> content_payload outcome \<Rightarrow> learning_state \<Rightarrow> learning_state \<times> effect list" where
  "generateContent topic technique res st =
     (case res of
        Resolved d \<Rightarrow>
          (st\<lparr>content := Some d, learn_loading := False\<rparr>, [Http (PostGenerateContent topic technique)])
      | Rejected _ \<Rightarrow>
          (st\<lparr>learn_loading := False\<rparr>,
           [Http (PostGenerateContent topic technique),
            ToastError ''Failed to generate content'', Navigate ''/dashboard'' None]))"

text \<open>The effect that runs on mount.\<close>

definition learning_mount ::
  "learn_nav option \<Rightarrow> content_payload outcome \<Rightarrow> learning_state \<Rightarrow> learning_state \<times> effect list" where
  "learning_mount loc res st =
     (case learn_params loc of (topic, technique) \<Rightarrow>
        if \<not> truthy_opt topic \<or> \<not> truthy_opt technique then (st, [Navigate ''/dashboard'' None])
        else generateContent (the topic) (the technique) res st)"

section \<open>AuthPage.js\<close>

record auth_state =
  isLogin :: bool
  loading :: bool
  email :: string
  password :: string
  educationLevel :: string
  subLevel :: string
  board :: string
  showSubLevel :: bool

definition handleEducationChange :: "string \<Rightarrow> auth_state \<Rightarrow> auth_state" where
  "handleEducationChange v st =
     (let st1 = st\<lparr>educationLevel := v, showSubLevel := (v = ''school'')\<rparr>
      in if v \<noteq> ''school'' then st1\<lparr>subLevel := [], board := []\<rparr> else st1)"

text \<open>\<^verbatim>\<open>error.response?.data?.detail || 'Authentication failed'\<close>\<close>

definition auth_error_message :: "string option \<Rightarrow> string" where
  "auth_error_message detail = (if truthy_opt detail then the detail else ''Authentication failed'')"

text \<open>
  What follows the awaited request in both branches of \<^verbatim>\<open>handleSubmit\<close>: the success
  toast, the callback and the navigation, or the \<^verbatim>\<open>catch\<close> block's toast.
\<close>

definition after_auth :: "string \<Rightarrow> auth_response outcome \<Rightarrow> effect list" where
  "after_auth msg res =
     (case res of
        Resolved r \<Rightarrow> [ToastSuccess msg, OnLogin (resp_token r) (resp_user r), Navigate ''/dashboard'' None]
      | Rejected detail \<Rightarrow> [ToastError (auth_error_message detail)])"

text \<open>
  \<^verbatim>\<open>handleSubmit\<close>. \<^verbatim>\<open>loading\<close> is set on entry and cleared on every way out (the two
  early returns and the \<^verbatim>\<open>finally\<close> block), so it ends false.
\<close>

definition handleSubmit :: "auth_response outcome \<Rightarrow> auth_state \<Rightarrow> auth_state \<times> effect list" where
  "handleSubmit res st =
     (st\<lparr>loading := False\<rparr>,
      if isLogin st then
        Http (PostLogin (email st) (password st)) # after_auth ''Login successful!'' res
      else if \<not> truthy (educationLevel st) then
        [ToastError ''Please select your education level'']
      else if educationLevel st = ''school'' \<and> (\<not> truthy (subLevel st) \<or> \<not> truthy (board st)) then
        [ToastError ''Please complete school details'']
      else
        Http (PostSignup (email st) (password st) (educationLevel st)
                (or_null (subLevel st)) (or_null (board st)))
          # after_auth ''Account created successfully!'' res)"

section \<open>App.js\<close>

text \<open>
  The two state variables of \<^verbatim>\<open>App\<close>, and the two items of \<^verbatim>\<open>localStorage\<close> it
  uses. The item \<^verbatim>\<open>user\<close> holds the JSON text of a profile; it is modelled by the
  profile that \<^verbatim>\<open>JSON.parse\<close> gives back.
\<close>

record app_state =
  token :: "string option"
  user :: "profile option"

record storage =
  token_item :: "string option"
  user_item :: "profile option"

definition empty_storage :: storage where
  "empty_storage = \<lparr>token_item = None, user_item = None\<rparr>"

text \<open>The initial values of the two \<^verbatim>\<open>useState\<close> calls.\<close>

definition initial_app :: "storage \<Rightarrow> app_state" where
  "initial_app sto = \<lparr>token = token_item sto, user = user_item sto\<rparr>"

text \<open>
  The two effects, which run after every render that changed their variable: a truthy
  value is written to its item, a falsy one removes the item.
\<close>

definition token_effect :: "app_state \<Rightarrow> storage \<Rightarrow> storage" where
  "token_effect st sto =
     (if truthy_opt (token st) then sto\<lparr>token_item := token st\<rparr> else sto\<lparr>token_item := None\<rparr>)"

definition user_effect :: "app_state \<Rightarrow> storage \<Rightarrow> storage" where
  "user_effect st sto =
     (if user st \<noteq> None then sto\<lparr>user_item := user st\<rparr> else sto\<lparr>user_item := None\<rparr>)"

text \<open>\<^verbatim>\<open>handleLogin\<close> stores its two arguments as they come.\<close>

definition handleLogin :: "string option \<Rightarrow> profile option \<Rightarrow> app_state \<Rightarrow> app_state" where
  "handleLogin newToken newUser st = st\<lparr>token := newToken, user := newUser\<rparr>"

definition handleLogout :: "app_state \<times> storage \<Rightarrow> app_state \<times> storage" where
  "handleLogout w = (case w of (st, sto) \<Rightarrow> (st\<lparr>token := None, user := None\<rparr>, empty_storage))"

text \<open>
  The application as a transition system on the pair of state and storage. Each event is
  one handler followed by the render and its effects (the setters a handler calls take
  effect together, in one render): a login or signup that succeeded
  (the Auth page calls \<^verbatim>\<open>onLogin\<close> with the response's token and user), a logout, and a
  reload of the page, which starts again from the storage.
\<close>

datatype app_event = LoggedIn auth_response | LoggedOut | Reloaded

definition commit :: "app_state \<times> storage \<Rightarrow> app_state \<times> storage" where
  "commit w = (case w of (st, sto) \<Rightarrow> (st, user_effect st (token_effect st sto)))"

definition start :: "storage \<Rightarrow> app_state \<times> storage" where
  "start sto = commit (initial_app sto, sto)"

fun app_step :: "app_event \<Rightarrow> app_state \<times> storage \<Rightarrow> app_state \<times> storage" where
  "app_step (LoggedIn r) (st, sto) = commit (handleLogin (resp_token r) (resp_user r) st, sto)"
| "app_step LoggedOut (st, sto) = commit (handleLogout (st, sto))"
| "app_step Reloaded (st, sto) = start sto"

definition app_run :: "app_event list \<Rightarrow> app_state \<times> storage" where
  "app_run evs = foldl (\<lambda>w e. app_step e w) (start empty_storage) evs"

text \<open>Exactly one of the two is held: one is null and the other is not.\<close>

definition exactly_one :: "app_state \<Rightarrow> bool" where
  "exactly_one st \<longleftrightarrow> (token st = None) \<noteq> (user st = None)"

text \<open>What the route guards test: \<^verbatim>\<open>token ? page : redirect\<close>.\<close>

definition logged_in :: "app_state \<Rightarrow> bool" where
  "logged_in st \<longleftrightarrow> truthy_opt (token st)"

text \<open>
  A response that carries both a non-empty token and a user, or neither of the two.
\<close>

definition paired :: "auth_response \<Rightarrow> bool" where
  "paired r \<longleftrightarrow>
     (truthy_opt (resp_token r) \<and> resp_user r \<noteq> None) \<or> (resp_token r = None \<and> resp_user r = None)"

fun login_paired :: "app_event \<Rightarrow> bool" where
  "login_paired (LoggedIn r) = paired r"
| "login_paired _ = True"

section \<open>AssessmentPage.js\<close>

datatype js_error = TypeError

record question =
  qid :: string
  qtype :: string
  qtext :: string
  options :: "string list"
  expected_time :: "real option"

text \<open>
  The seven state variables of the page. Times are real numbers: \<^verbatim>\<open>timer\<close> in seconds,
  \<^verbatim>\<open>startTime\<close> in milliseconds. The non-finite values of a JavaScript number are
  outside the model.
\<close>

record assessment_state =
  currentIndex :: nat
  answers :: "string \<rightharpoonup> string"
  results :: "eval_response list"
  timer :: real
  startTime :: real
  completed :: bool
  score :: nat

definition initial_assessment :: "real \<Rightarrow> assessment_state" where
  "initial_assessment now =
     \<lparr>currentIndex = 0, answers = Map.empty, results = [], timer = 0, startTime = now,
      completed = False, score = 0\<rparr>"

text \<open>\<^verbatim>\<open>questions?.[currentIndex]\<close>: undefined without questions or past their end.\<close>

definition currentQuestion :: "question list option \<Rightarrow> assessment_state \<Rightarrow> question option" where
  "currentQuestion questions st =
     (case questions of
        None \<Rightarrow> None
      | Some qs \<Rightarrow> if currentIndex st < length qs then Some (qs ! currentIndex st) else None)"

text \<open>
  \<^verbatim>\<open>currentQuestion?.expected_time || 60\<close>: the default replaces an undefined question,
  an absent or null field, and the falsy number 0.
\<close>

definition expectedTime :: "question list option \<Rightarrow> assessment_state \<Rightarrow> real" where
  "expectedTime questions st =
     (case currentQuestion questions st of
        None \<Rightarrow> 60
      | Some q \<Rightarrow> (case expected_time q of None \<Rightarrow> 60 | Some e \<Rightarrow> if e = 0 then 60 else e))"

definition timeRatio :: "question list option \<Rightarrow> assessment_state \<Rightarrow> real" where
  "timeRatio questions st = timer st / expectedTime questions st"

text \<open>The class of the timer element, chosen by the nested conditional of the markup.\<close>

definition timer_class :: "real \<Rightarrow> string" where
  "timer_class ratio =
     (if ratio > 1.5 then ''timer-danger'' else if ratio > 1 then ''timer-warning'' else ''text-[#a3e635]'')"

text \<open>
  The calls a handler makes, in order: the setters of the state variables, which store
  the value they are given, and the visible actions.
\<close>

datatype action =
    SetCurrentIndex nat
  | SetAnswers "string \<rightharpoonup> string"
  | SetResults "eval_response list"
  | SetTimer real
  | SetStartTime real
  | SetCompleted bool
  | SetScore nat
  | Do effect

fun apply_action :: "action \<Rightarrow> assessment_state \<Rightarrow> assessment_state" where
  "apply_action (SetCurrentIndex i) st = st\<lparr>currentIndex := i\<rparr>"
| "apply_action (SetAnswers m) st = st\<lparr>answers := m\<rparr>"
| "apply_action (SetResults rs) st = st\<lparr>results := rs\<rparr>"
| "apply_action (SetTimer t) st = st\<lparr>timer := t\<rparr>"
| "apply_action (SetStartTime t) st = st\<lparr>startTime := t\<rparr>"
| "apply_action (SetCompleted b) st = st\<lparr>completed := b\<rparr>"
| "apply_action (SetScore n) st = st\<lparr>score := n\<rparr>"
| "apply_action (Do _) st = st"

definition perform :: "action list \<Rightarrow> assessment_state \<Rightarrow> assessment_state" where
  "perform acts st = foldl (\<lambda>s a. apply_action a s) st acts"

fun sends_request :: "action \<Rightarrow> bool" where
  "sends_request (Do e) = is_http e"
| "sends_request _ = False"

fun sets_state :: "action \<Rightarrow> bool" where
  "sets_state (Do _) = False"
| "sets_state _ = True"

text \<open>
  \<^verbatim>\<open>handleAnswerChange(value)\<close>. Reading \<^verbatim>\<open>currentQuestion.id\<close> of an undefined question
  throws.
\<close>

definition handleAnswerChange ::
  "question list option \<Rightarrow> assessment_state \<Rightarrow> string \<Rightarrow> js_error + action list" where
  "handleAnswerChange questions snap v =
     (case currentQuestion questions snap of
        None \<Rightarrow> Inl TypeError
      | Some q \<Rightarrow> Inr [SetAnswers ((answers snap)(qid q \<mapsto> v))])"

text \<open>
  \<^verbatim>\<open>submitAnswer\<close>. The handler is a closure made by one render: \<open>snap\<close> holds the values
  of the state variables in that render, and every value the handler passes to a setter
  is computed from them. \<open>res\<close> is the outcome of the awaited request and \<open>now\<close> the
  reading of the clock after it. Any rejection ends in the \<^verbatim>\<open>catch\<close> block.
\<close>

definition submitAnswer ::
  "string option \<Rightarrow> question list option \<Rightarrow> assessment_state \<Rightarrow> eval_response outcome \<Rightarrow> real
     \<Rightarrow> js_error + action list" where
  "submitAnswer sessionId questions snap res now =
     (case currentQuestion questions snap of
        None \<Rightarrow> Inl TypeError
      | Some q \<Rightarrow>
          (let answer = answers snap (qid q) in
           if \<not> truthy_opt answer \<or> trim (the answer) = [] then
             Inr [Do (ToastError ''Please provide an answer'')]
           else
             Inr (Do (Http (PostEvaluateAnswer sessionId (qid q) (the answer) (timer snap))) #
               (case res of
                  Rejected _ \<Rightarrow> [Do (ToastError ''Failed to submit answer'')]
                | Resolved d \<Rightarrow>
                    [SetResults (results snap @ [d])] @
                    (if is_correct d then [SetScore (score snap + 1)] else []) @
                    [Do (ToastSuccess (feedback d))] @
                    (if int (currentIndex snap) < int (length (the questions)) - 1
                     then [SetCurrentIndex (currentIndex snap + 1), SetTimer 0, SetStartTime now]
                     else [SetCompleted True])))))"

text \<open>The callback of the interval, which the mount effect installs.\<close>

definition tick :: "assessment_state \<Rightarrow> real \<Rightarrow> action list" where
  "tick snap now = [SetTimer ((now - startTime snap) / 1000)]"

text \<open>A natural number in decimal, as \<^verbatim>\<open>{score}\<close> and \<^verbatim>\<open>${score}\<close> print it.\<close>

definition digit_char :: "nat \<Rightarrow> char" where
  "digit_char d = ''0123456789'' ! d"

fun show_nat :: "nat \<Rightarrow> string" where
  "show_nat n = (if n < 10 then [digit_char n] else show_nat (n div 10) @ [digit_char (n mod 10)])"

text \<open>
  What the page renders: the loading text, the results card (icon, score line and
  message), or the question card (position, number of questions, class of the timer,
  whole seconds shown, the question and the expected time). The question card reads
  \<^verbatim>\<open>currentQuestion.type\<close>, which throws when there is no current question.
\<close>

datatype icon = CheckCircle | XCircle

datatype view =
    LoadingView
  | CompletedView icon string string
  | QuestionView nat nat string int question real

definition render :: "question list option \<Rightarrow> assessment_state \<Rightarrow> js_error + view" where
  "render questions st =
     (if questions = None \<or> length (the questions) = 0 then Inr LoadingView
      else if completed st then
        Inr (CompletedView
              (if score st \<ge> 4 then CheckCircle else XCircle)
              (show_nat (score st) @ ''/6'')
              (if score st \<ge> 4 then ''Excellent work! You can move to the next topic.''
               else ''Good effort! Try another technique to improve your understanding.''))
      else
        (case currentQuestion questions st of
           None \<Rightarrow> Inl TypeError
         | Some q \<Rightarrow>
             Inr (QuestionView (currentIndex st + 1) (length (the questions))
                   (timer_class (timeRatio questions st)) \<lfloor>timer st\<rfloor> q (expectedTime questions st))))"

definition finishAssessment :: "assessment_state \<Rightarrow> effect list" where
  "finishAssessment st =
     (let passed = score st \<ge> 4 in
      (if passed then
         ToastSuccess (''Great job! You scored '' @ show_nat (score st) @
                       ''/6. You can skip the remaining techniques!'')
       else
         ToastInfo (''You scored '' @ show_nat (score st) @
                    ''/6. Try another learning technique to improve!''))
      # [Navigate ''/dashboard'' None])"

subsection \<open>Sessions\<close>

text \<open>
  A session of the page is a sequence of events. The page state is what the latest
  render shows. \<^verbatim>\<open>submitAnswer\<close> is asynchronous: pressing the button starts the handler
  of the current render, which is kept with that render's values until its request
  settles; only then do its setters run, on the state the page has by then. Nothing
  disables the button in between. The responses that reached a handler are recorded in
  \<open>delivered\<close>, which the page itself does not hold.
\<close>

record world =
  page :: assessment_state
  pending :: "assessment_state list"
  delivered :: "eval_response list"

datatype event =
    Change string
  | Click
  | Settle nat "eval_response outcome" real
  | Tick real

definition initial_world :: "real \<Rightarrow> world" where
  "initial_world now = \<lparr>page = initial_assessment now, pending = [], delivered = []\<rparr>"

text \<open>The input and the button exist only while the question card is rendered.\<close>

definition question_shown :: "question list option \<Rightarrow> assessment_state \<Rightarrow> bool" where
  "question_shown questions st =
     (case render questions st of Inr (QuestionView _ _ _ _ _ _) \<Rightarrow> True | _ \<Rightarrow> False)"

text \<open>The mount effect installs the interval only when both values arrived.\<close>

definition interval_running :: "string option \<Rightarrow> question list option \<Rightarrow> bool" where
  "interval_running sessionId questions \<longleftrightarrow> truthy_opt sessionId \<and> questions \<noteq> None"

definition received :: "action list \<Rightarrow> eval_response outcome \<Rightarrow> eval_response list" where
  "received acts res =
     (if list_ex sends_request acts then (case res of Resolved d \<Rightarrow> [d] | Rejected _ \<Rightarrow> []) else [])"

fun step :: "string option \<Rightarrow> question list option \<Rightarrow> event \<Rightarrow> world \<Rightarrow> world" where
  "step sessionId questions (Change v) w =
     (if question_shown questions (page w) then
        (case handleAnswerChange questions (page w) v of
           Inl _ \<Rightarrow> w
         | Inr acts \<Rightarrow> w\<lparr>page := perform acts (page w)\<rparr>)
      else w)"
| "step sessionId questions Click w =
     (if question_shown questions (page w) then w\<lparr>pending := pending w @ [page w]\<rparr> else w)"
| "step sessionId questions (Settle i res now) w =
     (if i < length (pending w) then
        (let snap = pending w ! i;
             w' = w\<lparr>pending := take i (pending w) @ drop (Suc i) (pending w)\<rparr>
         in case submitAnswer sessionId questions snap res now of
              Inl _ \<Rightarrow> w'
            | Inr acts \<Rightarrow>
                w'\<lparr>page := perform acts (page w'), delivered := delivered w' @ received acts res\<rparr>)
      else w)"
| "step sessionId questions (Tick now) w =
     (if interval_running sessionId questions then w\<lparr>page := perform (tick (page w) now) (page w)\<rparr>
      else w)"

definition run :: "string option \<Rightarrow> question list option \<Rightarrow> real \<Rightarrow> event list \<Rightarrow> world" where
  "run sessionId questions now es = foldl (\<lambda>w e. step sessionId questions e w) (initial_world now) es"

text \<open>
  The sessions in which no handler is started while another waits: every press of the
  button is followed at once by the end of its request.
\<close>

datatype user_event = Typed string | Submitted "eval_response outcome" real | Ticked real

fun expand :: "user_event list \<Rightarrow> event list" where
  "expand [] = []"
| "expand (Typed v # us) = Change v # expand us"
| "expand (Submitted res now # us) = Click # Settle 0 res now # expand us"
| "expand (Ticked now # us) = Tick now # expand us"

text \<open>
  A started handler is in flight when it has sent its request, which it does when the
  answer of its render passes the check, whatever the outcome and the clock will be. A
  handler that has not is over as soon as it has shown its toast.
\<close>

definition in_flight :: "string option \<Rightarrow> question list option \<Rightarrow> assessment_state \<Rightarrow> bool" where
  "in_flight sessionId questions snap =
     (case submitAnswer sessionId questions snap (Rejected None) 0 of
        Inl _ \<Rightarrow> False
      | Inr acts \<Rightarrow> list_ex sends_request acts)"

text \<open>The started handlers that wait for a response.\<close>

definition waiting :: "string option \<Rightarrow> question list option \<Rightarrow> world \<Rightarrow> assessment_state list" where
  "waiting sessionId questions w = filter (in_flight sessionId questions) (pending w)"

text \<open>
  The sessions with one submission at a time: after no event are two handlers in
  flight. Keystrokes, ticks of the interval and presses on a blank answer may come at
  any time, also between a press and its response.
\<close>

fun one_at_a_time :: "string option \<Rightarrow> question list option \<Rightarrow> event list \<Rightarrow> world \<Rightarrow> bool" where
  "one_at_a_time sessionId questions [] w = True"
| "one_at_a_time sessionId questions (e # es) w =
     (length (waiting sessionId questions (step sessionId questions e w)) \<le> 1 \<and>
      one_at_a_time sessionId questions es (step sessionId questions e w))"

text \<open>The number of correct answers among the responses that reached the page.\<close>

definition correct_count :: "eval_response list \<Rightarrow> nat" where
  "correct_count rs = length (filter is_correct rs)"

section \<open>Notions used in the proofs\<close>

text \<open>Running a list of events from any world; \<open>run\<close> starts it from the initial one.\<close>

definition steps :: "string option \<Rightarrow> question list option \<Rightarrow> event list \<Rightarrow> world \<Rightarrow> world" where
  "steps sessionId questions es w = foldl (\<lambda>w e. step sessionId questions e w) w es"

text \<open>
  The invariant of the sessions with one submission at a time: the results are the
  responses delivered so far, the score is the number of correct ones among them, at most
  one handler waits for a response, and that handler was made with the results and the
  score the page still has.
\<close>

definition in_step :: "string option \<Rightarrow> question list option \<Rightarrow> world \<Rightarrow> bool" where
  "in_step sessionId questions w \<longleftrightarrow>
     results (page w) = delivered w \<and> score (page w) = correct_count (delivered w) \<and>
     length (waiting sessionId questions w) \<le> 1 \<and>
     list_all (\<lambda>snap. results snap = results (page w) \<and> score snap = score (page w))
       (waiting sessionId questions w)"

text \<open>
  State and storage agree, token and user are both null or both not, and the token is
  not the empty string.
\<close>

definition coherent :: "app_state \<times> storage \<Rightarrow> bool" where
  "coherent w \<longleftrightarrow>
     (case w of (st, sto) \<Rightarrow>
        token_item sto = token st \<and> user_item sto = user st \<and>
        (token st = None \<longleftrightarrow> user st = None) \<and> token st \<noteq> Some [])"

section \<open>Example data\<close>

text \<open>Concrete inputs on which the theorems below are evaluated.\<close>

definition signup_form :: "string \<Rightarrow> string \<Rightarrow> string \<Rightarrow> auth_state" where
  "signup_form level sub brd =
     \<lparr>isLogin = False, loading = False, email = ''ada@example.org'', password = ''secret'',
      educationLevel = level, subLevel = sub, board = brd, showSubLevel = (level = ''school'')\<rparr>"

definition ada :: profile where
  "ada = \<lparr>user_email = ''ada@example.org'', user_education_level = ''college'',
          user_sub_level = None, user_board = None\<rparr>"

definition signed_up :: "auth_response outcome" where
  "signed_up = Resolved \<lparr>resp_token = Some ''t0k3n'', resp_user = Some ada\<rparr>"

definition short_question :: "string \<Rightarrow> real option \<Rightarrow> question" where
  "short_question i e = \<lparr>qid = i, qtype = ''short'', qtext = ''Why?'', options = [], expected_time = e\<rparr>"

definition two_questions :: "question list" where
  "two_questions = [short_question ''q1'' (Some 30), short_question ''q2'' None]"

definition six_questions :: "question list" where
  "six_questions = map (\<lambda>i. short_question i (Some 30)) [''q1'', ''q2'', ''q3'', ''q4'', ''q5'', ''q6'']"

definition right :: eval_response where
  "right = \<lparr>is_correct = True, feedback = ''Correct''\<rparr>"

definition wrong :: eval_response where
  "wrong = \<lparr>is_correct = False, feedback = ''Not quite''\<rparr>"

text \<open>An answer typed and submitted, the response arriving before anything else happens.\<close>

definition answered :: "eval_response \<Rightarrow> user_event list" where
  "answered r = [Typed ''because'', Submitted (Resolved r) 1000]"

definition empty_token_login :: auth_response where
  "empty_token_login = \<lparr>resp_token = Some [], resp_user = Some ada\<rparr>"

definition token_only_login :: auth_response where
  "token_only_login = \<lparr>resp_token = Some ''t0k3n'', resp_user = None\<rparr>"

definition good_login :: auth_response where
  "good_login = \<lparr>resp_token = Some ''t0k3n'', resp_user = Some ada\<rparr>"

text \<open>The button pressed twice on the first question, both requests answered afterwards.\<close>

definition double_press :: "event list" where
  "double_press =
     [Change ''because'', Click, Click, Settle 0 (Resolved right) 1000, Settle 0 (Resolved right) 2000]"

text \<open>
  A session with one submission at a time in which the interval ticks and the user goes
  on typing while each request is awaited; the button is also pressed on a blank answer,
  before the first request and during it.
\<close>

definition busy_session :: "event list" where
  "busy_session =
     [Click, Change ''because'', Click, Tick 100, Change [CHR 0x20], Click,
      Change ''because!'', Tick 200, Settle 1 (Resolved right) 300, Settle 0 (Rejected None) 300,
      Tick 400, Change ''therefore'', Click, Tick 500, Settle 1 (Resolved wrong) 700,
      Settle 0 (Resolved right) 800]"

text \<open>
  The same, with the second request of the first question answered only after the second
  question has been answered and scored.
\<close>

definition late_response :: "event list" where
  "late_response =
     [Change ''because'', Click, Click, Settle 0 (Resolved right) 1000,
      Change ''therefore'', Click, Settle 1 (Resolved right) 2000]"

definition four_of_six :: "user_event list" where
  "four_of_six =
     answered right @ answered right @ answered right @ answered right @ answered wrong @ answered wrong"

definition three_of_six :: "user_event list" where
  "three_of_six =
     answered right @ answered wrong @ answered right @ answered wrong @ answered right @ answered wrong"

text \<open>A state of the page with one answer typed for the first question.\<close>

definition typed_state :: "string \<Rightarrow> assessment_state" where
  "typed_state a = (initial_assessment 0)\<lparr>answers := [''q1'' \<mapsto> a], timer := 12\<rparr>"

section \<open>Properties of the strings\<close>

text \<open>The trimmed string is empty exactly when every code unit is white space.\<close>

lemma trim_empty_iff: "trim s = [] \<longleftrightarrow> (\<forall>c\<in>set s. is_space c)"
proof
  assume "trim s = []"
  then have a: "\<forall>c\<in>set (dropWhile is_space s). is_space c"
    by (simp add: trim_def)
  have "dropWhile is_space s = []"
  proof (cases "dropWhile is_space s")
    case Nil
    then show ?thesis .
  next
    case (Cons c cs)
    then have "\<not> is_space c"
      using hd_dropWhile [of is_space s] by simp
    with a Cons show ?thesis by simp
  qed
  then show "\<forall>c\<in>set s. is_space c"
    by simp
next
  assume "\<forall>c\<in>set s. is_space c"
  then show "trim s = []"
    by (auto simp: trim_def dest: set_dropWhileD)
qed

section \<open>Dashboard: a blank topic never navigates\<close>

text \<open>
  Claim C8. For every topic that is empty or consists only of white space, and for every
  technique passed to \<^verbatim>\<open>startLearning\<close> (the three buttons included), the handler shows
  the error toast and nothing else: no navigation to the Learning page.
\<close>

theorem startLearning_blank_topic:
  "\<forall>c\<in>set topic. is_space c \<Longrightarrow>
     startLearning topic technique = [ToastError ''Please enter a topic to learn''] \<and>
     \<not> list_ex is_navigate (startLearning topic technique)"
  by (simp add: startLearning_def truthy_def trim_empty_iff)

theorem startLearning_blank_topic_witness:
  "list_all is_space [CHR 0x20, CHR 0x09, CHR 0xA0] \<and>
   startLearning [CHR 0x20, CHR 0x09, CHR 0xA0] ''video'' = [ToastError ''Please enter a topic to learn''] \<and>
   \<not> list_ex is_navigate (startLearning [CHR 0x20, CHR 0x09, CHR 0xA0] ''video'') \<and>
   startLearning [] ''passage'' = [ToastError ''Please enter a topic to learn'']"
proof -
  have h: "\<forall>c\<in>set [CHR 0x20, CHR 0x09, CHR 0xA0]. is_space c"
    by (simp add: is_space_def)
  have e: "\<forall>c\<in>set ([] :: string). is_space c"
    by simp
  show ?thesis
    using h startLearning_blank_topic [OF h, of "''video''"] startLearning_blank_topic [OF e, of "''passage''"]
    by (simp add: list_all_iff)
qed

text \<open>Any other topic does navigate, carrying the topic as typed and the technique.\<close>

lemma startLearning_navigates:
  "\<not> (\<forall>c\<in>set topic. is_space c) \<Longrightarrow>
     startLearning topic technique = [Navigate ''/learn'' (Some (topic, technique))]"
  by (simp add: startLearning_def truthy_def trim_empty_iff)

section \<open>Learning page: the guard on mount\<close>

text \<open>The guard tests truthiness: an empty string redirects as an absent value does.\<close>

lemma learning_mount_falsy:
  "\<not> truthy_opt (fst (learn_params loc)) \<or> \<not> truthy_opt (snd (learn_params loc)) \<Longrightarrow>
     learning_mount loc res st = (st, [Navigate ''/dashboard'' None])"
  by (auto simp: learning_mount_def split: prod.splits)

text \<open>
  Claim C9. When the navigation state lacks the topic or the technique (or is absent
  altogether), the mount effect only redirects to the dashboard: the page state is
  unchanged and no request is sent, the content request in particular.
\<close>

theorem learning_mount_redirects:
  "fst (learn_params loc) = None \<or> snd (learn_params loc) = None \<Longrightarrow>
     learning_mount loc res st = (st, [Navigate ''/dashboard'' None]) \<and>
     \<not> list_ex is_http (snd (learning_mount loc res st))"
proof -
  assume "fst (learn_params loc) = None \<or> snd (learn_params loc) = None"
  then have "\<not> truthy_opt (fst (learn_params loc)) \<or> \<not> truthy_opt (snd (learn_params loc))"
    by (auto simp: truthy_opt_def)
  then show ?thesis
    by (simp add: learning_mount_falsy)
qed

theorem learning_mount_redirects_witness:
  "(fst (learn_params None) = None \<or> snd (learn_params None) = None) \<and>
   learning_mount None (Resolved (PlainText ''text'')) \<lparr>content = None, learn_loading = True\<rparr>
     = (\<lparr>content = None, learn_loading = True\<rparr>, [Navigate ''/dashboard'' None]) \<and>
   \<not> list_ex is_http (snd (learning_mount None (Resolved (PlainText ''text'')) \<lparr>content = None, learn_loading = True\<rparr>))"
proof -
  have h: "fst (learn_params None) = None \<or> snd (learn_params None) = None"
    by (simp add: learn_params_def)
  show ?thesis
    using h learning_mount_redirects [OF h, of "Resolved (PlainText ''text'')" "\<lparr>content = None, learn_loading = True\<rparr>"]
    by simp
qed

text \<open>With both values present and non-empty the content request is sent.\<close>

lemma learning_mount_requests:
  "learn_params loc = (Some t, Some k) \<Longrightarrow> t \<noteq> [] \<Longrightarrow> k \<noteq> [] \<Longrightarrow>
     list_ex is_http (snd (learning_mount loc res st))"
  by (cases res) (simp_all add: learning_mount_def truthy_opt_def truthy_def generateContent_def)

section \<open>Auth page: the local checks of a signup\<close>

text \<open>
  Claim C7. In signup mode, with the education level equal to \<^verbatim>\<open>school\<close> or empty,
  \<^verbatim>\<open>handleSubmit\<close> sends a request exactly when the level is \<^verbatim>\<open>school\<close> and both the
  sub-level and the board are non-empty; in every other such case it stops before the
  network.
\<close>

theorem signup_blocked_locally:
  "\<not> isLogin st \<Longrightarrow> educationLevel st = ''school'' \<or> educationLevel st = [] \<Longrightarrow>
     list_ex is_http (snd (handleSubmit res st))
       \<longleftrightarrow> educationLevel st = ''school'' \<and> subLevel st \<noteq> [] \<and> board st \<noteq> []"
  by (auto simp: handleSubmit_def truthy_def)

theorem signup_blocked_locally_witness:
  "(\<not> isLogin (signup_form ''school'' ''10'' []) \<and>
    (educationLevel (signup_form ''school'' ''10'' []) = ''school'' \<or> educationLevel (signup_form ''school'' ''10'' []) = []) \<and>
    \<not> list_ex is_http (snd (handleSubmit signed_up (signup_form ''school'' ''10'' [])))) \<and>
   (\<not> isLogin (signup_form ''school'' ''10'' ''CBSE'') \<and>
    list_ex is_http (snd (handleSubmit signed_up (signup_form ''school'' ''10'' ''CBSE'')))) \<and>
   (\<not> isLogin (signup_form [] [] []) \<and>
    \<not> list_ex is_http (snd (handleSubmit signed_up (signup_form [] [] []))))"
proof -
  have a: "\<not> isLogin (signup_form l s b)" for l s b
    by (simp add: signup_form_def)
  have b: "educationLevel (signup_form l s b) = l" "subLevel (signup_form l s b) = s"
    "board (signup_form l s b) = b" for l s b
    by (simp_all add: signup_form_def)
  show ?thesis
    using signup_blocked_locally [OF a, of "''school''" "''10''" "[]" signed_up]
      signup_blocked_locally [OF a, of "''school''" "''10''" "''CBSE''" signed_up]
      signup_blocked_locally [OF a, of "[]" "[]" "[]" signed_up]
    by (simp add: a b)
qed

text \<open>The two local checks answer with their own toasts, and a complete form is posted.\<close>

lemma signup_without_level:
  "\<not> isLogin st \<Longrightarrow> educationLevel st = [] \<Longrightarrow>
     snd (handleSubmit res st) = [ToastError ''Please select your education level'']"
  by (simp add: handleSubmit_def truthy_def)

lemma signup_school_incomplete:
  "\<not> isLogin st \<Longrightarrow> educationLevel st = ''school'' \<Longrightarrow> subLevel st = [] \<or> board st = [] \<Longrightarrow>
     snd (handleSubmit res st) = [ToastError ''Please complete school details'']"
  by (auto simp: handleSubmit_def truthy_def)

section \<open>Assessment page: the timer\<close>

lemma expectedTime_nonzero: "expectedTime questions st \<noteq> 0"
  by (simp add: expectedTime_def split: option.splits)

text \<open>
  Claim C2. The ratio is the timer over the expected time, whose denominator is never
  zero. Its class is the normal one exactly when the ratio is at most 1, the warning one
  exactly when it is above 1 and at most 1.5, the danger one exactly when it is above 1.5;
  the boundary values 1 and 1.5 fall in the lower class.
\<close>

theorem timer_class_buckets:
  "timeRatio questions st = timer st / expectedTime questions st \<and>
   expectedTime questions st \<noteq> 0 \<and>
   (timer_class (timeRatio questions st) = ''text-[#a3e635]'' \<longleftrightarrow> timeRatio questions st \<le> 1) \<and>
   (timer_class (timeRatio questions st) = ''timer-warning''
      \<longleftrightarrow> 1 < timeRatio questions st \<and> timeRatio questions st \<le> 1.5) \<and>
   (timer_class (timeRatio questions st) = ''timer-danger'' \<longleftrightarrow> 1.5 < timeRatio questions st) \<and>
   timer_class 1 = ''text-[#a3e635]'' \<and> timer_class 1.5 = ''timer-warning''"
proof -
  have "(timer_class r = ''text-[#a3e635]'' \<longleftrightarrow> r \<le> 1) \<and>
        (timer_class r = ''timer-warning'' \<longleftrightarrow> 1 < r \<and> r \<le> 1.5) \<and>
        (timer_class r = ''timer-danger'' \<longleftrightarrow> 1.5 < r)" for r
    by (simp add: timer_class_def)
  moreover have "timer_class 1 = ''text-[#a3e635]''" "timer_class 1.5 = ''timer-warning''"
    by (simp_all add: timer_class_def)
  ultimately show ?thesis
    by (simp add: timeRatio_def expectedTime_nonzero)
qed

text \<open>Every timer value and every non-zero expected time occur as the ratio of a state.\<close>

lemma timeRatio_covers:
  "e \<noteq> 0 \<Longrightarrow>
     timeRatio (Some [short_question i (Some e)]) ((initial_assessment now)\<lparr>timer := t\<rparr>) = t / e"
  by (simp add: timeRatio_def expectedTime_def currentQuestion_def initial_assessment_def
      short_question_def)

text \<open>
  Claim C10. The expected time is 60 when there is no current question and when the
  current question's \<^verbatim>\<open>expected_time\<close> is absent, null or 0. The denominator of the ratio
  is therefore never zero, and the ratio always falls in one of the three classes.
\<close>

theorem expectedTime_default:
  "expectedTime questions st \<noteq> 0 \<and>
   timer_class (timeRatio questions st) \<in> set [''text-[#a3e635]'', ''timer-warning'', ''timer-danger''] \<and>
   (currentQuestion questions st = None \<longrightarrow> expectedTime questions st = 60) \<and>
   (currentQuestion questions st = Some q \<and> (expected_time q = None \<or> expected_time q = Some 0)
      \<longrightarrow> expectedTime questions st = 60 \<and> timeRatio questions st = timer st / 60)"
proof -
  have "timer_class r \<in> set [''text-[#a3e635]'', ''timer-warning'', ''timer-danger'']" for r
    by (simp add: timer_class_def)
  moreover have "currentQuestion questions st = None \<longrightarrow> expectedTime questions st = 60"
    by (simp add: expectedTime_def)
  moreover have "expectedTime questions st = 60"
    if "currentQuestion questions st = Some q" and "expected_time q = None \<or> expected_time q = Some 0"
    using that by (auto simp: expectedTime_def)
  ultimately show ?thesis
    using expectedTime_nonzero [of questions st] by (auto simp: timeRatio_def)
qed


theorem expectedTime_default_witness:
  "(currentQuestion (Some two_questions) ((initial_assessment 0)\<lparr>currentIndex := 1, timer := 90\<rparr>)
      = Some (short_question ''q2'' None) \<and>
    expected_time (short_question ''q2'' None) = None) \<and>
   expectedTime (Some two_questions) ((initial_assessment 0)\<lparr>currentIndex := 1, timer := 90\<rparr>) = 60 \<and>
   timeRatio (Some two_questions) ((initial_assessment 0)\<lparr>currentIndex := 1, timer := 90\<rparr>) = 3 / 2 \<and>
   (currentQuestion (Some [short_question ''q0'' (Some 0)]) (initial_assessment 0)
      = Some (short_question ''q0'' (Some 0)) \<and>
    expected_time (short_question ''q0'' (Some 0)) = Some 0) \<and>
   expectedTime (Some [short_question ''q0'' (Some 0)]) (initial_assessment 0) = 60 \<and>
   currentQuestion None (initial_assessment 0) = None \<and>
   expectedTime None (initial_assessment 0) = 60"
proof -
  have a: "currentQuestion (Some two_questions) ((initial_assessment 0)\<lparr>currentIndex := 1, timer := 90\<rparr>)
      = Some (short_question ''q2'' None)"
    by (simp add: currentQuestion_def two_questions_def)
  have b: "currentQuestion (Some [short_question ''q0'' (Some 0)]) (initial_assessment 0)
      = Some (short_question ''q0'' (Some 0))"
    by (simp add: currentQuestion_def initial_assessment_def)
  have c: "currentQuestion None (initial_assessment 0) = None"
    by (simp add: currentQuestion_def)
  have d: "expected_time (short_question i e) = e" for i e
    by (simp add: short_question_def)
  show ?thesis
    using a b c
      expectedTime_default [of "Some two_questions"
        "(initial_assessment 0)\<lparr>currentIndex := 1, timer := 90\<rparr>" "short_question ''q2'' None"]
      expectedTime_default [of "Some [short_question ''q0'' (Some 0)]" "initial_assessment 0"
        "short_question ''q0'' (Some 0)"]
      expectedTime_default [of None "initial_assessment 0"]
    by (simp add: d)
qed

section \<open>Assessment page: submitting an answer\<close>

text \<open>The button exists only when there is a current question.\<close>

lemma question_shown_current:
  "question_shown questions st \<Longrightarrow> \<exists>q. currentQuestion questions st = Some q"
  by (auto simp: question_shown_def render_def split: if_splits option.splits)

text \<open>
  Claim C4. When the answer to the current question is absent, empty or made of white
  space only, \<^verbatim>\<open>submitAnswer\<close> does one thing, the error toast: it calls no setter and sends
  no request, so whatever state the page has (index, answers, results, timer, start time,
  completion flag and score) stays as it is.
\<close>

theorem submitAnswer_blank_answer:
  assumes "currentQuestion questions snap = Some q"
    and "answers snap (qid q) = None \<or> (\<exists>a. answers snap (qid q) = Some a \<and> (\<forall>c\<in>set a. is_space c))"
  shows "submitAnswer sessionId questions snap res now = Inr [Do (ToastError ''Please provide an answer'')] \<and>
         perform [Do (ToastError ''Please provide an answer'')] st = st"
  using assms
  by (auto simp: submitAnswer_def truthy_opt_def trim_empty_iff perform_def)

theorem submitAnswer_blank_answer_witness:
  "currentQuestion (Some two_questions) (typed_state [CHR 0x20, CHR 0x09]) = Some (short_question ''q1'' (Some 30)) \<and>
   answers (typed_state [CHR 0x20, CHR 0x09]) (qid (short_question ''q1'' (Some 30))) = Some [CHR 0x20, CHR 0x09] \<and>
   list_all is_space [CHR 0x20, CHR 0x09] \<and>
   submitAnswer (Some ''s1'') (Some two_questions) (typed_state [CHR 0x20, CHR 0x09]) (Resolved right) 1000
     = Inr [Do (ToastError ''Please provide an answer'')] \<and>
   perform [Do (ToastError ''Please provide an answer'')] (typed_state [CHR 0x20, CHR 0x09])
     = typed_state [CHR 0x20, CHR 0x09] \<and>
   currentQuestion (Some two_questions) (initial_assessment 0) = Some (short_question ''q1'' (Some 30)) \<and>
   answers (initial_assessment 0) (qid (short_question ''q1'' (Some 30))) = None \<and>
   submitAnswer (Some ''s1'') (Some two_questions) (initial_assessment 0) (Resolved right) 1000
     = Inr [Do (ToastError ''Please provide an answer'')]"
proof -
  have a: "currentQuestion (Some two_questions) (typed_state v) = Some (short_question ''q1'' (Some 30))" for v
    by (simp add: currentQuestion_def two_questions_def typed_state_def initial_assessment_def)
  have b: "answers (typed_state v) (qid (short_question ''q1'' (Some 30))) = Some v" for v
    by (simp add: typed_state_def short_question_def)
  have c: "\<forall>c\<in>set [CHR 0x20, CHR 0x09]. is_space c"
    by (simp add: is_space_def)
  have d: "currentQuestion (Some two_questions) (initial_assessment 0) = Some (short_question ''q1'' (Some 30))"
    by (simp add: currentQuestion_def two_questions_def initial_assessment_def)
  have e: "answers (initial_assessment 0) (qid (short_question ''q1'' (Some 30))) = None"
    by (simp add: initial_assessment_def)
  have f: "answers (typed_state [CHR 0x20, CHR 0x09]) (qid (short_question ''q1'' (Some 30))) = None \<or>
           (\<exists>a. answers (typed_state [CHR 0x20, CHR 0x09]) (qid (short_question ''q1'' (Some 30))) = Some a \<and>
                (\<forall>c\<in>set a. is_space c))"
    using b c by simp
  have g: "answers (initial_assessment 0) (qid (short_question ''q1'' (Some 30))) = None \<or>
           (\<exists>a. answers (initial_assessment 0) (qid (short_question ''q1'' (Some 30))) = Some a \<and>
                (\<forall>c\<in>set a. is_space c))"
    using e by simp
  show ?thesis
    using a b c d e
      submitAnswer_blank_answer [OF a f, of "Some ''s1''" "Resolved right" 1000 "typed_state [CHR 0x20, CHR 0x09]"]
      submitAnswer_blank_answer [OF d g, of "Some ''s1''" "Resolved right" 1000 "initial_assessment 0"]
    by (simp add: list_all_iff)
qed

text \<open>
  Claim C6. When the answer passes the check and the request is rejected, the handler
  has sent that one request and then shows the error toast of the \<^verbatim>\<open>catch\<close> block; it calls
  no setter, so the state of the page stays as it is, and it sends nothing again.
\<close>

theorem submitAnswer_rejected:
  assumes "currentQuestion questions snap = Some q"
    and "answers snap (qid q) = Some a" and "\<not> (\<forall>c\<in>set a. is_space c)"
  shows "submitAnswer sessionId questions snap (Rejected detail) now =
           Inr [Do (Http (PostEvaluateAnswer sessionId (qid q) a (timer snap))),
                Do (ToastError ''Failed to submit answer'')] \<and>
         perform [Do (Http (PostEvaluateAnswer sessionId (qid q) a (timer snap))),
                  Do (ToastError ''Failed to submit answer'')] st = st"
proof -
  from assms(3) have "a \<noteq> []" "trim a \<noteq> []"
    by (auto simp: trim_empty_iff)
  with assms(1,2) show ?thesis
    by (simp add: submitAnswer_def truthy_opt_def truthy_def perform_def)
qed

theorem submitAnswer_rejected_witness:
  "currentQuestion (Some two_questions) (typed_state ''because'') = Some (short_question ''q1'' (Some 30)) \<and>
   answers (typed_state ''because'') (qid (short_question ''q1'' (Some 30))) = Some ''because'' \<and>
   \<not> (\<forall>c\<in>set ''because''. is_space c) \<and>
   submitAnswer (Some ''s1'') (Some two_questions) (typed_state ''because'') (Rejected None) 1000 =
     Inr [Do (Http (PostEvaluateAnswer (Some ''s1'') ''q1'' ''because'' 12)),
          Do (ToastError ''Failed to submit answer'')] \<and>
   perform [Do (Http (PostEvaluateAnswer (Some ''s1'') ''q1'' ''because'' 12)),
            Do (ToastError ''Failed to submit answer'')] (typed_state ''because'') = typed_state ''because''"
proof -
  have a: "currentQuestion (Some two_questions) (typed_state ''because'') = Some (short_question ''q1'' (Some 30))"
    by (simp add: currentQuestion_def two_questions_def typed_state_def initial_assessment_def)
  have b: "answers (typed_state ''because'') (qid (short_question ''q1'' (Some 30))) = Some ''because''"
    by (simp add: typed_state_def short_question_def)
  have c: "\<not> (\<forall>c\<in>set ''because''. is_space c)"
    by (simp add: is_space_def)
  have d: "qid (short_question ''q1'' (Some 30)) = ''q1''" "timer (typed_state ''because'') = 12"
    by (simp_all add: short_question_def typed_state_def)
  show ?thesis
    using a b c
      submitAnswer_rejected [OF a b c, of "Some ''s1''" None 1000 "typed_state ''because''"]
    by (simp add: d)
qed

section \<open>Assessment page: the results card\<close>

lemma render_completed:
  assumes "questions = Some qs" and "qs \<noteq> []" and "completed st"
  shows "render questions st =
           Inr (CompletedView (if 4 \<le> score st then CheckCircle else XCircle)
                 (show_nat (score st) @ ''/6'')
                 (if 4 \<le> score st then ''Excellent work! You can move to the next topic.''
                  else ''Good effort! Try another technique to improve your understanding.''))"
  using assms by (simp add: render_def)

lemma show_nat_digit: "show_nat 4 = ''4''" "show_nat 3 = ''3''" "show_nat (Suc 0) = ''1''"
  by (simp_all add: digit_char_def)

lemma four_of_six_state:
  "completed (page (run (Some ''s1'') (Some six_questions) 0 (expand four_of_six))) \<and>
   score (page (run (Some ''s1'') (Some six_questions) 0 (expand four_of_six))) = 4"
  by code_simp

lemma three_of_six_state:
  "completed (page (run (Some ''s1'') (Some six_questions) 0 (expand three_of_six))) \<and>
   score (page (run (Some ''s1'') (Some six_questions) 0 (expand three_of_six))) = 3"
  by code_simp

lemma one_of_two_state:
  "completed (page (run (Some ''s1'') (Some two_questions) 0 (expand (answered right @ answered wrong)))) \<and>
   score (page (run (Some ''s1'') (Some two_questions) 0 (expand (answered right @ answered wrong)))) = 1"
  by code_simp

text \<open>
  Claim C3. Whenever the results card is rendered (there are questions and the session
  is completed), it shows the success icon and message exactly when the score is at least
  4, the retry ones otherwise, and the score followed by \<^verbatim>\<open>/6\<close> whatever the number of
  questions; \<^verbatim>\<open>finishAssessment\<close> uses the same threshold and the same total. A session of
  six questions with four correct answers ends on \<^verbatim>\<open>4/6\<close> with the success icon, one with
  three correct answers on \<^verbatim>\<open>3/6\<close> with the retry icon.
\<close>

theorem completed_view:
  "(questions = Some qs \<and> qs \<noteq> [] \<and> completed st \<longrightarrow>
      render questions st =
        Inr (CompletedView (if 4 \<le> score st then CheckCircle else XCircle)
              (show_nat (score st) @ ''/6'')
              (if 4 \<le> score st then ''Excellent work! You can move to the next topic.''
               else ''Good effort! Try another technique to improve your understanding.''))) \<and>
   finishAssessment st =
     [if 4 \<le> score st
      then ToastSuccess (''Great job! You scored '' @ show_nat (score st) @
                         ''/6. You can skip the remaining techniques!'')
      else ToastInfo (''You scored '' @ show_nat (score st) @
                      ''/6. Try another learning technique to improve!''),
      Navigate ''/dashboard'' None] \<and>
   render (Some six_questions) (page (run (Some ''s1'') (Some six_questions) 0 (expand four_of_six)))
     = Inr (CompletedView CheckCircle ''4/6'' ''Excellent work! You can move to the next topic.'') \<and>
   render (Some six_questions) (page (run (Some ''s1'') (Some six_questions) 0 (expand three_of_six)))
     = Inr (CompletedView XCircle ''3/6''
             ''Good effort! Try another technique to improve your understanding.'')"
proof -
  have six: "six_questions \<noteq> []"
    by (simp add: six_questions_def)
  have a: "render (Some six_questions) (page (run (Some ''s1'') (Some six_questions) 0 (expand four_of_six)))
     = Inr (CompletedView CheckCircle ''4/6'' ''Excellent work! You can move to the next topic.'')"
    using four_of_six_state
    by (simp add: render_completed [OF refl six] show_nat_digit del: show_nat.simps)
  have b: "render (Some six_questions) (page (run (Some ''s1'') (Some six_questions) 0 (expand three_of_six)))
     = Inr (CompletedView XCircle ''3/6''
             ''Good effort! Try another technique to improve your understanding.'')"
    using three_of_six_state
    by (simp add: render_completed [OF refl six] show_nat_digit del: show_nat.simps)
  have c: "finishAssessment st =
     [if 4 \<le> score st
      then ToastSuccess (''Great job! You scored '' @ show_nat (score st) @
                         ''/6. You can skip the remaining techniques!'')
      else ToastInfo (''You scored '' @ show_nat (score st) @
                      ''/6. Try another learning technique to improve!''),
      Navigate ''/dashboard'' None]"
    by (simp add: finishAssessment_def Let_def del: show_nat.simps)
  from a b c show ?thesis
    by (simp add: render_completed del: show_nat.simps)
qed

theorem completed_view_witness:
  "(Some two_questions = Some two_questions \<and> two_questions \<noteq> [] \<and>
    completed (page (run (Some ''s1'') (Some two_questions) 0 (expand (answered right @ answered wrong))))) \<and>
   render (Some two_questions)
      (page (run (Some ''s1'') (Some two_questions) 0 (expand (answered right @ answered wrong))))
     = Inr (CompletedView XCircle ''1/6''
             ''Good effort! Try another technique to improve your understanding.'')"
proof -
  have two: "two_questions \<noteq> []"
    by (simp add: two_questions_def)
  show ?thesis
    using two one_of_two_state
      completed_view [of "Some two_questions" two_questions
        "page (run (Some ''s1'') (Some two_questions) 0 (expand (answered right @ answered wrong)))"]
    by (simp add: show_nat_digit del: show_nat.simps)
qed

section \<open>Assessment page: the score of a session\<close>

lemma steps_append: "steps s q (es @ fs) w = steps s q fs (steps s q es w)"
  by (simp add: steps_def)

lemma run_steps: "run s q now es = steps s q es (initial_world now)"
  by (simp add: run_def steps_def)


lemma steps_Cons: "steps s q (e # es) w = steps s q es (step s q e w)"
  by (simp add: steps_def)

lemma one_at_a_time_append:
  "one_at_a_time s q (es @ fs) w \<longleftrightarrow> one_at_a_time s q es w \<and> one_at_a_time s q fs (steps s q es w)"
proof (induction es arbitrary: w)
  case Nil
  show ?case by (simp add: steps_def)
next
  case (Cons e es)
  show ?case
    by (simp only: append_Cons one_at_a_time.simps Cons.IH steps_Cons conj_assoc)
qed

text \<open>A handler is in flight exactly when its render had an answer that passes the check.\<close>

lemma in_flight_eq:
  "in_flight s q snap =
     (case currentQuestion q snap of
        None \<Rightarrow> False
      | Some cq \<Rightarrow> truthy_opt (answers snap (qid cq)) \<and> trim (the (answers snap (qid cq))) \<noteq> [])"
proof (cases "currentQuestion q snap")
  case None
  then show ?thesis
    by (simp add: in_flight_def submitAnswer_def)
next
  case (Some cq)
  show ?thesis
  proof (cases "\<not> truthy_opt (answers snap (qid cq)) \<or> trim (the (answers snap (qid cq))) = []")
    case True
    with Some show ?thesis
      by (auto simp: in_flight_def submitAnswer_def Let_def)
  next
    case False
    with Some show ?thesis
      by (simp add: in_flight_def submitAnswer_def Let_def)
  qed
qed

lemma filter_without_nth:
  assumes "i < length xs"
  shows "filter P xs = filter P (take i xs) @ (if P (xs ! i) then [xs ! i] else []) @ filter P (drop (Suc i) xs)"
proof -
  have "filter P xs = filter P (take i xs @ xs ! i # drop (Suc i) xs)"
    using id_take_nth_drop [OF assms] by simp
  then show ?thesis
    by simp
qed

text \<open>
  What one run of the handler does to the state \<open>st\<close> the page has when the setters
  run: nothing, or the results and the score are replaced by values computed from the
  handler's own render \<open>snap\<close>.
\<close>

lemma submitAnswer_effect:
  assumes "submitAnswer s q snap res now = Inr acts"
  shows "(received acts res = [] \<and> perform acts st = st) \<or>
         (\<exists>d. res = Resolved d \<and> received acts res = [d] \<and>
              results (perform acts st) = results snap @ [d] \<and>
              score (perform acts st) = (if is_correct d then score snap + 1 else score st))"
proof (cases "currentQuestion q snap")
  case None
  with assms show ?thesis
    by (simp add: submitAnswer_def)
next
  case (Some cq)
  show ?thesis
  proof (cases "\<not> truthy_opt (answers snap (qid cq)) \<or> trim (the (answers snap (qid cq))) = []")
    case True
    with assms Some have "acts = [Do (ToastError ''Please provide an answer'')]"
      by (auto simp: submitAnswer_def Let_def)
    then show ?thesis
      by (simp add: received_def perform_def)
  next
    case False
    show ?thesis
    proof (cases res)
      case (Rejected detail)
      with assms Some False have "\<exists>r. acts = [Do (Http r), Do (ToastError ''Failed to submit answer'')]"
        by (auto simp: submitAnswer_def Let_def)
      with Rejected show ?thesis
        by (auto simp: received_def perform_def)
    next
      case (Resolved d)
      with assms Some False have
        "\<exists>r tl. acts = Do (Http r) # SetResults (results snap @ [d]) #
            (if is_correct d then [SetScore (score snap + 1)] else []) @ Do (ToastSuccess (feedback d)) # tl \<and>
            (tl = [SetCurrentIndex (currentIndex snap + 1), SetTimer 0, SetStartTime now] \<or> tl = [SetCompleted True])"
        by (auto simp: submitAnswer_def Let_def)
      with Resolved show ?thesis
        by (auto simp: received_def perform_def)
    qed
  qed
qed


lemma submitAnswer_thrown: "submitAnswer s q snap res now = Inl e \<Longrightarrow> \<not> in_flight s q snap"
proof (cases "currentQuestion q snap")
  case None
  then show ?thesis
    by (simp add: in_flight_eq)
next
  case (Some cq)
  assume "submitAnswer s q snap res now = Inl e"
  with Some show ?thesis
    by (simp add: submitAnswer_def Let_def split: if_splits)
qed

lemma submitAnswer_idle:
  assumes "submitAnswer s q snap res now = Inr acts" and "\<not> in_flight s q snap"
  shows "received acts res = [] \<and> perform acts st = st"
proof (cases "currentQuestion q snap")
  case None
  with assms(1) show ?thesis
    by (simp add: submitAnswer_def)
next
  case (Some cq)
  with assms(2) have "\<not> truthy_opt (answers snap (qid cq)) \<or> trim (the (answers snap (qid cq))) = []"
    by (simp add: in_flight_eq)
  with assms(1) Some have "acts = [Do (ToastError ''Please provide an answer'')]"
    by (auto simp: submitAnswer_def Let_def)
  then show ?thesis
    by (simp add: received_def perform_def)
qed

lemma in_step_initial: "in_step s q (initial_world now)"
  by (simp add: in_step_def waiting_def initial_world_def initial_assessment_def correct_count_def)

lemma in_step_same:
  "in_step s q w \<Longrightarrow> page w' = page w \<Longrightarrow> delivered w' = delivered w \<Longrightarrow>
     waiting s q w' = waiting s q w \<Longrightarrow> in_step s q w'"
  unfolding in_step_def by metis

lemma change_in_step:
  "in_step s q w \<Longrightarrow>
     in_step s q (step s q (Change v) w) \<and> score (page (step s q (Change v) w)) = score (page w)"
  by (auto simp: in_step_def waiting_def handleAnswerChange_def perform_def split: option.splits)

lemma tick_in_step:
  "in_step s q w \<Longrightarrow>
     in_step s q (step s q (Tick t) w) \<and> score (page (step s q (Tick t) w)) = score (page w)"
  by (auto simp: in_step_def waiting_def tick_def perform_def)

lemma click_in_step:
  assumes "in_step s q w" and "length (waiting s q (step s q Click w)) \<le> 1"
  shows "in_step s q (step s q Click w) \<and> score (page (step s q Click w)) = score (page w)"
proof (cases "question_shown q (page w)")
  case False
  with assms(1) show ?thesis by simp
next
  case True
  define w2 where "w2 = step s q Click w"
  from True have p2: "page w2 = page w" and d2: "delivered w2 = delivered w"
    and w2: "waiting s q w2 = waiting s q w @ (if in_flight s q (page w) then [page w] else [])"
    by (simp_all add: w2_def waiting_def)
  from assms(1) have r: "results (page w) = delivered w" and c: "score (page w) = correct_count (delivered w)"
    and fresh: "list_all (\<lambda>x. results x = results (page w) \<and> score x = score (page w)) (waiting s q w)"
    unfolding in_step_def by blast+
  from fresh have f2: "list_all (\<lambda>x. results x = results (page w) \<and> score x = score (page w)) (waiting s q w2)"
    by (simp add: w2)
  from assms(2) have l2: "length (waiting s q w2) \<le> 1"
    by (simp only: w2_def)
  have "in_step s q w2"
    unfolding in_step_def p2 d2 using r c l2 f2 by blast
  with p2 show ?thesis
    by (simp only: w2_def)
qed

text \<open>
  The end of a handler keeps the invariant: a handler that was not in flight changes
  nothing, and the one in flight was made with the results and score the page still has.
\<close>

lemma settle_in_step:
  assumes "in_step s q w"
  shows "in_step s q (step s q (Settle i res now) w) \<and>
         score (page w) \<le> score (page (step s q (Settle i res now) w))"
proof (cases "i < length (pending w)")
  case False
  with assms show ?thesis by simp
next
  case True
  define snap where "snap = pending w ! i"
  define rest where "rest = take i (pending w) @ drop (Suc i) (pending w)"
  have split: "waiting s q w =
      filter (in_flight s q) (take i (pending w)) @ (if in_flight s q snap then [snap] else []) @
      filter (in_flight s q) (drop (Suc i) (pending w))"
    unfolding waiting_def snap_def by (rule filter_without_nth [OF True])
  from assms have r: "results (page w) = delivered w" and c: "score (page w) = correct_count (delivered w)"
    and one: "length (waiting s q w) \<le> 1"
    and fresh: "list_all (\<lambda>x. results x = results (page w) \<and> score x = score (page w)) (waiting s q w)"
    unfolding in_step_def by blast+
  show ?thesis
  proof (cases "in_flight s q snap")
    case False
    then have same: "filter (in_flight s q) rest = waiting s q w"
      by (simp add: split rest_def)
    have "step s q (Settle i res now) w = w\<lparr>pending := rest\<rparr>"
    proof (cases "submitAnswer s q snap res now")
      case (Inl e)
      with True show ?thesis
        by (simp add: snap_def rest_def Let_def)
    next
      case (Inr acts)
      from submitAnswer_idle [OF Inr False, of "page w"] Inr True show ?thesis
        by (simp add: snap_def rest_def Let_def)
    qed
    moreover from same have "waiting s q (w\<lparr>pending := rest\<rparr>) = waiting s q w"
      by (simp add: waiting_def)
    ultimately show ?thesis
      using in_step_same [OF assms, of "w\<lparr>pending := rest\<rparr>"] by simp
  next
    case inflight: True
    with one split have none: "filter (in_flight s q) rest = []"
      by (auto simp: rest_def)
    from inflight fresh split have f: "results snap = results (page w)" "score snap = score (page w)"
      by simp_all
    from inflight obtain acts where acts: "submitAnswer s q snap res now = Inr acts"
      using submitAnswer_thrown [of s q snap res now] by (cases "submitAnswer s q snap res now") auto
    from True acts have st: "step s q (Settle i res now) w =
        w\<lparr>pending := rest, page := perform acts (page w), delivered := delivered w @ received acts res\<rparr>"
      by (simp add: snap_def rest_def Let_def)
    define w2 where "w2 = step s q (Settle i res now) w"
    from st have p2: "page w2 = perform acts (page w)"
      and d2: "delivered w2 = delivered w @ received acts res"
      and w2: "waiting s q w2 = []"
      by (simp_all add: w2_def waiting_def none)
    from submitAnswer_effect [OF acts, of "page w"] f r c
    have r2: "results (perform acts (page w)) = delivered w @ received acts res"
      and c2: "score (perform acts (page w)) = correct_count (delivered w @ received acts res)"
      and m2: "score (page w) \<le> score (perform acts (page w))"
      by (auto simp: correct_count_def)
    have "in_step s q w2"
      unfolding in_step_def by (simp add: p2 d2 w2 r2 c2)
    with m2 p2 show ?thesis
      by (simp add: w2_def)
  qed
qed

lemma step_in_step:
  assumes "in_step s q w" and "one_at_a_time s q [e] w"
  shows "in_step s q (step s q e w) \<and> score (page w) \<le> score (page (step s q e w))"
proof (cases e)
  case (Change v)
  with assms(1) change_in_step [of s q w v] show ?thesis by simp
next
  case Click
  with assms click_in_step [of s q w] show ?thesis by simp
next
  case (Settle i res now)
  with assms(1) settle_in_step [of s q w i res now] show ?thesis by simp
next
  case (Tick t)
  with assms(1) tick_in_step [of s q w t] show ?thesis by simp
qed

lemma steps_in_step:
  "in_step s q w \<Longrightarrow> one_at_a_time s q es w \<Longrightarrow>
     in_step s q (steps s q es w) \<and> score (page w) \<le> score (page (steps s q es w))"
proof (induction es arbitrary: w)
  case Nil
  then show ?case by (simp add: steps_def)
next
  case (Cons e es)
  from Cons.prems have one: "one_at_a_time s q [e] w" and rest: "one_at_a_time s q es (step s q e w)"
    by simp_all
  from step_in_step [OF Cons.prems(1) one] have a: "in_step s q (step s q e w)"
    and b: "score (page w) \<le> score (page (step s q e w))"
    by simp_all
  from Cons.IH [OF a rest] b show ?case
    by (simp add: steps_Cons)
qed

text \<open>
  Claim C1, for the sessions with one submission at a time: at no point are two
  requests in flight, and anything else (keystrokes, ticks of the interval, presses on a
  blank answer) may happen at any time, also while a request is awaited. At every point
  of such a session the score is the number of correct responses among those delivered,
  the results are those responses in order, and the score never decreases as the session
  goes on.
\<close>

theorem score_counts_correct:
  assumes "one_at_a_time s q (es @ fs) (initial_world now)"
  shows "score (page (run s q now es)) = correct_count (delivered (run s q now es)) \<and>
         results (page (run s q now es)) = delivered (run s q now es) \<and>
         score (page (run s q now es)) \<le> score (page (run s q now (es @ fs)))"
proof -
  from assms have a: "one_at_a_time s q es (initial_world now)"
    and b: "one_at_a_time s q fs (run s q now es)"
    by (simp_all add: one_at_a_time_append run_steps)
  from steps_in_step [OF in_step_initial a] have c: "in_step s q (run s q now es)"
    by (simp add: run_steps)
  from steps_in_step [OF c b] have "score (page (run s q now es)) \<le> score (page (run s q now (es @ fs)))"
    by (simp add: run_steps steps_append)
  with c show ?thesis
    by (simp add: in_step_def)
qed

theorem score_counts_correct_witness:
  "one_at_a_time (Some ''s1'') (Some two_questions) (busy_session @ [Tick 800]) (initial_world 0) \<and>
   length (delivered (run (Some ''s1'') (Some two_questions) 0 busy_session)) = 2 \<and>
   correct_count (delivered (run (Some ''s1'') (Some two_questions) 0 busy_session)) = 1 \<and>
   score (page (run (Some ''s1'') (Some two_questions) 0 busy_session)) = 1 \<and>
   results (page (run (Some ''s1'') (Some two_questions) 0 busy_session))
     = delivered (run (Some ''s1'') (Some two_questions) 0 busy_session) \<and>
   score (page (run (Some ''s1'') (Some two_questions) 0 busy_session))
     \<le> score (page (run (Some ''s1'') (Some two_questions) 0 (busy_session @ [Tick 800])))"
proof -
  have h: "one_at_a_time (Some ''s1'') (Some two_questions) (busy_session @ [Tick 800]) (initial_world 0)"
    by code_simp
  have n: "length (delivered (run (Some ''s1'') (Some two_questions) 0 busy_session)) = 2"
    by code_simp
  have c: "correct_count (delivered (run (Some ''s1'') (Some two_questions) 0 busy_session)) = 1"
    by code_simp
  show ?thesis
    using h n c score_counts_correct [OF h]
    by simp
qed

text \<open>
  The sessions in which every press is answered at once are sessions with one submission
  at a time.
\<close>

lemma press_settles:
  "pending w = [] \<Longrightarrow> pending (step s q (Settle 0 res now) (step s q Click w)) = []"
  by (auto simp: Let_def split: sum.splits)

lemma press_waits:
  "pending w = [] \<Longrightarrow> length (waiting s q (step s q Click w)) \<le> 1"
  by (simp add: waiting_def)

lemma expand_one_at_a_time:
  "pending w = [] \<Longrightarrow>
     one_at_a_time s q (expand us) w \<and> pending (steps s q (expand us) w) = []"
proof (induction us arbitrary: w)
  case Nil
  then show ?case by (simp add: steps_def)
next
  case (Cons u us)
  show ?case
  proof (cases u)
    case (Typed v)
    define w2 where "w2 = step s q (Change v) w"
    have p: "pending w2 = []"
      using Cons.prems by (simp add: w2_def split: sum.splits)
    then have "length (waiting s q w2) \<le> 1"
      by (simp add: waiting_def)
    with Cons.IH [OF p] Typed show ?thesis
      by (simp add: steps_Cons w2_def del: step.simps)
  next
    case (Submitted res now)
    define w2 where "w2 = step s q Click w"
    define w3 where "w3 = step s q (Settle 0 res now) w2"
    have l2: "length (waiting s q w2) \<le> 1"
      unfolding w2_def by (rule press_waits [OF Cons.prems])
    have p: "pending w3 = []"
      unfolding w3_def w2_def by (rule press_settles [OF Cons.prems])
    then have "length (waiting s q w3) \<le> 1"
      by (simp add: waiting_def)
    with Cons.IH [OF p] l2 Submitted show ?thesis
      by (simp add: steps_Cons w3_def w2_def del: step.simps)
  next
    case (Ticked t)
    define w2 where "w2 = step s q (Tick t) w"
    have p: "pending w2 = []"
      using Cons.prems by (simp add: w2_def)
    then have "length (waiting s q w2) \<le> 1"
      by (simp add: waiting_def)
    with Cons.IH [OF p] Ticked show ?thesis
      by (simp add: steps_Cons w2_def del: step.simps)
  qed
qed

text \<open>
  The claim as stated, for every session, fails. Two presses on the same render start
  two handlers with the same score and results: after two correct responses the score is
  1. A response that arrives late sets the score from its old render: the score goes from
  2 back to 1.
\<close>

theorem score_double_press:
  "score (page (run (Some ''s1'') (Some two_questions) 0 double_press)) = 1 \<and>
   correct_count (delivered (run (Some ''s1'') (Some two_questions) 0 double_press)) = 2 \<and>
   score (page (run (Some ''s1'') (Some six_questions) 0 late_response)) = 2 \<and>
   score (page (run (Some ''s1'') (Some six_questions) 0
            (late_response @ [Settle 0 (Resolved right) 3000]))) = 1"
  by code_simp

text \<open>Both are sessions with two requests in flight at once.\<close>

lemma double_press_overlaps:
  "\<not> one_at_a_time (Some ''s1'') (Some two_questions) double_press (initial_world 0)"
  "\<not> one_at_a_time (Some ''s1'') (Some six_questions) late_response (initial_world 0)"
  by code_simp+

section \<open>App: token and user\<close>

lemma commit_coherent:
  "(token st = None \<longleftrightarrow> user st = None) \<Longrightarrow> token st \<noteq> Some [] \<Longrightarrow> coherent (commit (st, sto))"
  by (cases "token st")
    (auto simp: coherent_def commit_def token_effect_def user_effect_def truthy_opt_def truthy_def)

lemma start_coherent: "coherent (st, sto) \<Longrightarrow> coherent (start sto)"
  unfolding start_def
  by (rule commit_coherent) (simp_all add: coherent_def initial_app_def)

lemma start_empty_coherent: "coherent (start empty_storage)"
  unfolding start_def
  by (rule commit_coherent) (simp_all add: initial_app_def empty_storage_def)

lemma app_step_coherent:
  assumes "coherent w" and "login_paired e"
  shows "coherent (app_step e w)"
proof (cases w)
  case (Pair st sto)
  show ?thesis
  proof (cases e)
    case (LoggedIn r)
    with assms(2) have "paired r"
      by simp
    then have "(resp_token r = None \<longleftrightarrow> resp_user r = None) \<and> resp_token r \<noteq> Some []"
      by (auto simp: paired_def truthy_opt_def truthy_def)
    with LoggedIn Pair show ?thesis
      by (simp add: commit_coherent handleLogin_def)
  next
    case LoggedOut
    with Pair show ?thesis
      by (simp add: commit_coherent handleLogout_def)
  next
    case Reloaded
    with assms(1) Pair show ?thesis
      by (simp add: start_coherent)
  qed
qed

lemma app_steps_coherent:
  "coherent w \<Longrightarrow> \<forall>e\<in>set evs. login_paired e \<Longrightarrow>
     coherent (foldl (\<lambda>w e. app_step e w) w evs)"
  by (induction evs arbitrary: w) (simp_all add: app_step_coherent)

lemma coherent_app_run: "\<forall>e\<in>set evs. login_paired e \<Longrightarrow> coherent (app_run evs)"
  unfolding app_run_def by (rule app_steps_coherent [OF start_empty_coherent])

text \<open>
  Claim C5, for the runs in which every login or signup response carries both a
  non-empty token and a user, or neither of the two. Starting from an empty storage,
  after any sequence of such logins, logouts and reloads the state holds both token and
  user or neither, the route guards see a session exactly when there is a user, and the
  storage holds what the state holds. \<^verbatim>\<open>handleLogin\<close> stores the two values it is given
  and \<^verbatim>\<open>handleLogout\<close> clears both and the storage.
\<close>

theorem token_and_user_together:
  assumes "\<forall>e\<in>set evs. login_paired e"
  shows "\<not> exactly_one (fst (app_run evs)) \<and>
         (logged_in (fst (app_run evs)) \<longleftrightarrow> user (fst (app_run evs)) \<noteq> None) \<and>
         token_item (snd (app_run evs)) = token (fst (app_run evs)) \<and>
         user_item (snd (app_run evs)) = user (fst (app_run evs)) \<and>
         token (handleLogin newToken newUser st) = newToken \<and>
         user (handleLogin newToken newUser st) = newUser \<and>
         token (fst (handleLogout (st, sto))) = None \<and>
         user (fst (handleLogout (st, sto))) = None \<and>
         snd (handleLogout (st, sto)) = empty_storage"
proof -
  obtain a b where w: "app_run evs = (a, b)"
    by (cases "app_run evs")
  from coherent_app_run [OF assms] w have "coherent (a, b)"
    by simp
  then have "\<not> exactly_one a" "logged_in a \<longleftrightarrow> user a \<noteq> None" "token_item b = token a" "user_item b = user a"
    by (cases "token a"; auto simp: coherent_def exactly_one_def logged_in_def truthy_opt_def truthy_def)+
  with w show ?thesis
    by (simp add: handleLogin_def handleLogout_def)
qed

theorem token_and_user_together_witness:
  "list_all login_paired
     [LoggedIn good_login, Reloaded, LoggedOut, LoggedIn \<lparr>resp_token = None, resp_user = None\<rparr>,
      LoggedIn good_login, Reloaded] \<and>
   \<not> exactly_one (fst (app_run
     [LoggedIn good_login, Reloaded, LoggedOut, LoggedIn \<lparr>resp_token = None, resp_user = None\<rparr>,
      LoggedIn good_login, Reloaded])) \<and>
   logged_in (fst (app_run
     [LoggedIn good_login, Reloaded, LoggedOut, LoggedIn \<lparr>resp_token = None, resp_user = None\<rparr>,
      LoggedIn good_login, Reloaded])) \<and>
   user (fst (app_run
     [LoggedIn good_login, Reloaded, LoggedOut, LoggedIn \<lparr>resp_token = None, resp_user = None\<rparr>,
      LoggedIn good_login, Reloaded])) = Some ada"
proof -
  have h: "\<forall>e\<in>set [LoggedIn good_login, Reloaded, LoggedOut,
      LoggedIn \<lparr>resp_token = None, resp_user = None\<rparr>, LoggedIn good_login, Reloaded]. login_paired e"
    by (simp add: good_login_def paired_def truthy_opt_def truthy_def)
  have u: "user (fst (app_run [LoggedIn good_login, Reloaded, LoggedOut,
      LoggedIn \<lparr>resp_token = None, resp_user = None\<rparr>, LoggedIn good_login, Reloaded])) = Some ada"
    by (simp add: app_run_def start_def commit_def initial_app_def empty_storage_def token_effect_def
        user_effect_def handleLogin_def handleLogout_def good_login_def truthy_opt_def truthy_def)
  show ?thesis
    using h u token_and_user_together [OF h]
    by (simp add: list_all_iff)
qed

text \<open>
  The condition on the responses cannot be dropped for any response: after a login with
  a response that is not of that kind, the state holds exactly one of the two, at once or
  after a reload.
\<close>

lemma unpaired_login_shows:
  assumes "\<not> paired r"
  shows "exactly_one (fst (app_step (LoggedIn r) w)) \<or>
         exactly_one (fst (app_step Reloaded (app_step (LoggedIn r) w)))"
proof (cases w)
  case (Pair st sto)
  show ?thesis
  proof (cases "resp_token r")
    case None
    with assms Pair show ?thesis
      by (simp add: paired_def commit_def handleLogin_def exactly_one_def)
  next
    case (Some t)
    show ?thesis
    proof (cases "resp_user r")
      case None
      with Some Pair show ?thesis
        by (simp add: commit_def handleLogin_def exactly_one_def)
    next
      case (Some u)
      with \<open>resp_token r = Some t\<close> assms have "t = []"
        by (simp add: paired_def truthy_opt_def truthy_def)
      with Some \<open>resp_token r = Some t\<close> Pair show ?thesis
        by (simp add: commit_def start_def initial_app_def handleLogin_def exactly_one_def
            token_effect_def user_effect_def truthy_opt_def truthy_def)
    qed
  qed
qed

text \<open>
  The claim as stated fails. A response with a token and no user leaves the token in
  state and storage without a user, and the route guards see a session. A response with
  the empty string as its token and a user leaves the user written and the token item
  removed: the guards see no session although there is a user, and after a reload the
  state holds a user and no token.
\<close>

theorem token_and_user_apart:
  "exactly_one (fst (app_run [LoggedIn token_only_login])) \<and>
   logged_in (fst (app_run [LoggedIn token_only_login])) \<and>
   user (fst (app_run [LoggedIn token_only_login])) = None \<and>
   token_item (snd (app_run [LoggedIn token_only_login])) = Some ''t0k3n'' \<and>
   user_item (snd (app_run [LoggedIn token_only_login])) = None \<and>
   exactly_one (fst (app_run [LoggedIn token_only_login, Reloaded])) \<and>
   \<not> logged_in (fst (app_run [LoggedIn empty_token_login])) \<and>
   user (fst (app_run [LoggedIn empty_token_login])) = Some ada \<and>
   token_item (snd (app_run [LoggedIn empty_token_login])) = None \<and>
   user_item (snd (app_run [LoggedIn empty_token_login])) = Some ada \<and>
   token (fst (app_run [LoggedIn empty_token_login, Reloaded])) = None \<and>
   user (fst (app_run [LoggedIn empty_token_login, Reloaded])) = Some ada \<and>
   exactly_one (fst (app_run [LoggedIn empty_token_login, Reloaded]))"
  by (simp add: app_run_def start_def commit_def initial_app_def empty_storage_def token_effect_def
      user_effect_def handleLogin_def empty_token_login_def token_only_login_def exactly_one_def
      logged_in_def truthy_opt_def truthy_def)

end
